theory Spec2Isabelle
  imports Complex_Main "HOL-Library.Log_Nat" "HOL-Library.Word"
begin

section \<open>Numbers of the Go runtime and of math/big\<close>

text \<open>
  The package converts between three representations: \<^verbatim>\<open>*big.Int\<close> (modelled as
  \<open>int option\<close>, \<open>None\<close> for the nil pointer), \<^verbatim>\<open>*big.Float\<close> (a precision in bits and
  a value, or an infinity) and \<^verbatim>\<open>float64\<close>. Every finite value of the last two is a
  rational number, so values are kept as \<open>rat\<close> and each operation rounds its exact
  result to the precision in force, to nearest with ties to even, as math/big and IEEE 754
  do. The two zeros of a float are identified: no operation used by the package tells them
  apart (\<^verbatim>\<open>-0 < 0\<close> is false, and \<^verbatim>\<open>Int\<close>, \<^verbatim>\<open>Sign\<close> and \<^verbatim>\<open>Cmp\<close> read both as zero).
  Exponent overflow of a \<^verbatim>\<open>big.Float\<close> (beyond \<open>2 ^ (2 ^ 31)\<close>) and memory exhaustion are
  outside the model.
\<close>

definition pow2 :: "int \<Rightarrow> rat" where
  "pow2 k = (if 0 \<le> k then of_int (2 ^ nat k) else 1 / of_int (2 ^ nat (- k)))"

text \<open>\<open>ilog2 x\<close> is the binary exponent \<open>\<lfloor>log\<^sub>2 x\<rfloor>\<close> of a positive rational.\<close>

definition ilog2 :: "rat \<Rightarrow> int" where
  "ilog2 x = (let (a, b) = quotient_of x; k = bitlen a - bitlen b
              in if pow2 k \<le> x then k else k - 1)"

definition round_half_even :: "rat \<Rightarrow> int" where
  "round_half_even q =
     (let f = \<lfloor>q\<rfloor>; d = q - of_int f
      in if d < 1 / 2 then f
         else if 1 / 2 < d then f + 1
         else if even f then f else f + 1)"

text \<open>Rounding to \<open>p\<close> mantissa bits with an unbounded exponent (math/big's \<^verbatim>\<open>ToNearestEven\<close>).\<close>

definition round_prec :: "nat \<Rightarrow> rat \<Rightarrow> rat" where
  "round_prec p x =
     (if x = 0 then 0
      else let e = ilog2 \<bar>x\<bar> - (int p - 1)
           in sgn x * of_int (round_half_even (\<bar>x\<bar> / pow2 e)) * pow2 e)"

text \<open>Truncation towards zero, as \<^verbatim>\<open>Float.Int\<close> and the conversion \<^verbatim>\<open>int64(f)\<close> do.\<close>

definition trunc :: "rat \<Rightarrow> int" where
  "trunc x = (if 0 \<le> x then \<lfloor>x\<rfloor> else \<lceil>x\<rceil>)"

datatype float64 = Fin rat | PInf | NInf | NaN

datatype accuracy = Below | Exact | Above

datatype bigfloat = BFin nat rat | BInf nat bool

datatype panic = ErrNaN | NilPointer | DivisionByZero

datatype 'a outcome = Returns 'a | Panics panic

text \<open>
  Rounding a rational to the nearest \<^verbatim>\<open>float64\<close>: 53 bits in the normal range, the fixed
  quantum \<open>2 ^ -1074\<close> below \<open>2 ^ -1022\<close>, and infinity from \<open>2 ^ 1024\<close> on.
\<close>

definition f64_round :: "rat \<Rightarrow> float64" where
  "f64_round x =
     (if x = 0 then Fin 0
      else let e = max (ilog2 \<bar>x\<bar> - 52) (- 1074);
               r = of_int (round_half_even (\<bar>x\<bar> / pow2 e)) * pow2 e
           in if pow2 1024 \<le> r then (if x < 0 then NInf else PInf)
              else Fin (sgn x * r))"


definition obind :: "'a outcome \<Rightarrow> ('a \<Rightarrow> 'b outcome) \<Rightarrow> 'b outcome" where
  "obind m f = (case m of Returns a \<Rightarrow> f a | Panics p \<Rightarrow> Panics p)"

subsection \<open>float64\<close>

text \<open>A floating-point literal or constant denotes the nearest \<^verbatim>\<open>float64\<close>.\<close>

definition f64_lit :: "rat \<Rightarrow> float64" where
  "f64_lit r = f64_round r"

definition f64_of_int64 :: "64 word \<Rightarrow> float64" where
  "f64_of_int64 w = f64_round (of_int (sint w))"

definition f64_mul :: "float64 \<Rightarrow> float64 \<Rightarrow> float64" where
  "f64_mul x y =
     (case (x, y) of
        (NaN, _) \<Rightarrow> NaN
      | (_, NaN) \<Rightarrow> NaN
      | (Fin a, Fin b) \<Rightarrow> f64_round (a * b)
      | (Fin a, PInf) \<Rightarrow> (if a = 0 then NaN else if 0 < a then PInf else NInf)
      | (Fin a, NInf) \<Rightarrow> (if a = 0 then NaN else if 0 < a then NInf else PInf)
      | (PInf, Fin b) \<Rightarrow> (if b = 0 then NaN else if 0 < b then PInf else NInf)
      | (NInf, Fin b) \<Rightarrow> (if b = 0 then NaN else if 0 < b then NInf else PInf)
      | (PInf, PInf) \<Rightarrow> PInf
      | (NInf, NInf) \<Rightarrow> PInf
      | (PInf, NInf) \<Rightarrow> NInf
      | (NInf, PInf) \<Rightarrow> NInf)"

definition f64_div :: "float64 \<Rightarrow> float64 \<Rightarrow> float64" where
  "f64_div x y =
     (case (x, y) of
        (NaN, _) \<Rightarrow> NaN
      | (_, NaN) \<Rightarrow> NaN
      | (Fin a, Fin b) \<Rightarrow>
          (if b = 0 then (if a = 0 then NaN else if 0 < a then PInf else NInf)
           else f64_round (a / b))
      | (Fin a, _) \<Rightarrow> Fin 0
      | (PInf, Fin b) \<Rightarrow> (if b < 0 then NInf else PInf)
      | (NInf, Fin b) \<Rightarrow> (if b < 0 then PInf else NInf)
      | (_, _) \<Rightarrow> NaN)"

definition f64_lt :: "float64 \<Rightarrow> float64 \<Rightarrow> bool" where
  "f64_lt x y =
     (case (x, y) of
        (NaN, _) \<Rightarrow> False
      | (_, NaN) \<Rightarrow> False
      | (Fin a, Fin b) \<Rightarrow> a < b
      | (NInf, NInf) \<Rightarrow> False
      | (NInf, _) \<Rightarrow> True
      | (_, PInf) \<Rightarrow> (x \<noteq> PInf)
      | (_, _) \<Rightarrow> False)"

definition IsNaN :: "float64 \<Rightarrow> bool" where
  "IsNaN f \<longleftrightarrow> f = NaN"

text \<open>\<^verbatim>\<open>math.IsInf(f, 0)\<close>: either infinity.\<close>

definition IsInf :: "float64 \<Rightarrow> bool" where
  "IsInf f \<longleftrightarrow> f = PInf \<or> f = NInf"

text \<open>
  The conversion \<^verbatim>\<open>int64(f)\<close> truncates; where the truncated value does not fit (or \<open>f\<close> is
  not finite) Go leaves the result to the implementation, here the parameter \<open>impl\<close>.
\<close>

definition f64_to_int64 :: "(float64 \<Rightarrow> 64 word) \<Rightarrow> float64 \<Rightarrow> 64 word" where
  "f64_to_int64 impl f =
     (case f of
        Fin r \<Rightarrow> (if - (2 ^ 63) \<le> trunc r \<and> trunc r < 2 ^ 63 then word_of_int (trunc r) else impl f)
      | _ \<Rightarrow> impl f)"

subsection \<open>big.Float\<close>

fun bprec :: "bigfloat \<Rightarrow> nat" where
  "bprec (BFin p _) = p"
| "bprec (BInf p _) = p"

text \<open>
  An operation \<^verbatim>\<open>z.Op(x, y)\<close> rounds to the precision of its receiver \<open>z\<close>, or, when that
  is still 0 (a \<^verbatim>\<open>new(big.Float)\<close>), to the larger precision of the operands.
\<close>

definition zprec :: "nat \<Rightarrow> bigfloat \<Rightarrow> bigfloat \<Rightarrow> nat" where
  "zprec z x y = (if z = 0 then max (bprec x) (bprec y) else z)"

text \<open>\<^verbatim>\<open>SetFloat64\<close> and \<^verbatim>\<open>big.NewFloat\<close>: precision 53, and a panic with \<^verbatim>\<open>ErrNaN\<close> for NaN.\<close>

definition Float_SetFloat64 :: "float64 \<Rightarrow> bigfloat outcome" where
  "Float_SetFloat64 f =
     (case f of
        Fin r \<Rightarrow> Returns (BFin 53 r)
      | PInf \<Rightarrow> Returns (BInf 53 False)
      | NInf \<Rightarrow> Returns (BInf 53 True)
      | NaN \<Rightarrow> Panics ErrNaN)"

definition NewFloat :: "float64 \<Rightarrow> bigfloat outcome" where
  "NewFloat f = Float_SetFloat64 f"

definition Float_Quo :: "nat \<Rightarrow> bigfloat \<Rightarrow> bigfloat \<Rightarrow> bigfloat outcome" where
  "Float_Quo z x y =
     (let p = zprec z x y in
      case (x, y) of
        (BFin _ a, BFin _ b) \<Rightarrow>
          (if b = 0 then (if a = 0 then Panics ErrNaN else Returns (BInf p (a < 0)))
           else Returns (BFin p (round_prec p (a / b))))
      | (BFin _ a, BInf _ _) \<Rightarrow> Returns (BFin p 0)
      | (BInf _ n, BFin _ b) \<Rightarrow> Returns (BInf p (n \<noteq> (b < 0)))
      | (BInf _ _, BInf _ _) \<Rightarrow> Panics ErrNaN)"

definition Float_Mul :: "nat \<Rightarrow> bigfloat \<Rightarrow> bigfloat \<Rightarrow> bigfloat outcome" where
  "Float_Mul z x y =
     (let p = zprec z x y in
      case (x, y) of
        (BFin _ a, BFin _ b) \<Rightarrow> Returns (BFin p (round_prec p (a * b)))
      | (BFin _ a, BInf _ n) \<Rightarrow> (if a = 0 then Panics ErrNaN else Returns (BInf p (n \<noteq> (a < 0))))
      | (BInf _ n, BFin _ b) \<Rightarrow> (if b = 0 then Panics ErrNaN else Returns (BInf p (n \<noteq> (b < 0))))
      | (BInf _ n, BInf _ m) \<Rightarrow> Returns (BInf p (n \<noteq> m)))"

definition Float_Sub :: "nat \<Rightarrow> bigfloat \<Rightarrow> bigfloat \<Rightarrow> bigfloat outcome" where
  "Float_Sub z x y =
     (let p = zprec z x y in
      case (x, y) of
        (BFin _ a, BFin _ b) \<Rightarrow> Returns (BFin p (round_prec p (a - b)))
      | (BFin _ a, BInf _ n) \<Rightarrow> Returns (BInf p (\<not> n))
      | (BInf _ n, BFin _ b) \<Rightarrow> Returns (BInf p n)
      | (BInf _ n, BInf _ m) \<Rightarrow> (if n = m then Panics ErrNaN else Returns (BInf p n)))"

fun Float_Abs :: "bigfloat \<Rightarrow> bigfloat" where
  "Float_Abs (BFin p a) = BFin p \<bar>a\<bar>"
| "Float_Abs (BInf p _) = BInf p False"

fun Float_Sign :: "bigfloat \<Rightarrow> int" where
  "Float_Sign (BFin _ a) = (if a < 0 then - 1 else if a = 0 then 0 else 1)"
| "Float_Sign (BInf _ n) = (if n then - 1 else 1)"

fun Float_Cmp :: "bigfloat \<Rightarrow> bigfloat \<Rightarrow> int" where
  "Float_Cmp (BFin _ a) (BFin _ b) = (if a < b then - 1 else if b < a then 1 else 0)"
| "Float_Cmp (BFin _ a) (BInf _ n) = (if n then 1 else - 1)"
| "Float_Cmp (BInf _ n) (BFin _ b) = (if n then - 1 else 1)"
| "Float_Cmp (BInf _ n) (BInf _ m) = (if n = m then 0 else if n then - 1 else 1)"

text \<open>\<^verbatim>\<open>x.Int(z)\<close> truncates a finite \<open>x\<close> into \<open>z\<close>; for an infinity it returns nil and leaves \<open>z\<close>.\<close>

fun Float_Int :: "bigfloat \<Rightarrow> int option" where
  "Float_Int (BFin _ a) = Some (trunc a)"
| "Float_Int (BInf _ _) = None"

text \<open>
  \<^verbatim>\<open>x.Float64()\<close>: the nearest \<^verbatim>\<open>float64\<close> and how it compares with \<open>x\<close> itself: \<open>Above\<close>
  when the result is larger than \<open>x\<close>, \<open>Below\<close> when smaller.
\<close>

fun Float_Float64 :: "bigfloat \<Rightarrow> float64 \<times> accuracy" where
  "Float_Float64 (BFin _ a) =
     (case f64_round a of
        Fin r \<Rightarrow> (Fin r, if r < a then Below else if a < r then Above else Exact)
      | PInf \<Rightarrow> (PInf, Above)
      | NInf \<Rightarrow> (NInf, Below)
      | NaN \<Rightarrow> (NaN, Exact))"
| "Float_Float64 (BInf _ n) = (if n then NInf else PInf, Exact)"

subsection \<open>big.Int\<close>

text \<open>\<^verbatim>\<open>new(big.Int).Exp(big.NewInt(10), big.NewInt(y), nil)\<close>: the result is 1 for \<open>y \<le> 0\<close>.\<close>

definition Exp10 :: "64 word \<Rightarrow> int" where
  "Exp10 y = (if sint y \<le> 0 then 1 else 10 ^ nat (sint y))"

text \<open>\<^verbatim>\<open>x.Int64()\<close> keeps the low 64 bits; \<^verbatim>\<open>x.IsInt64()\<close> tells whether that is \<open>x\<close> itself.\<close>

definition Int_Int64 :: "int \<Rightarrow> 64 word" where
  "Int_Int64 x = word_of_int x"

definition IsInt64 :: "int \<Rightarrow> bool" where
  "IsInt64 x \<longleftrightarrow> - (2 ^ 63) \<le> x \<and> x < 2 ^ 63"

text \<open>\<^verbatim>\<open>Int.Div\<close> is Euclidean division and panics on a zero divisor.\<close>

definition Int_Div :: "int \<Rightarrow> int \<Rightarrow> int outcome" where
  "Int_Div x y =
     (if y = 0 then Panics DivisionByZero
      else if 0 < y then Returns (x div y)
      else Returns (- (x div (- y))))"

subsection \<open>Decimal text\<close>

definition digit_char :: "int \<Rightarrow> char" where
  "digit_char d = char_of (48 + d)"

function digits :: "int \<Rightarrow> string" where
  "digits n = (if n < 10 then [digit_char n] else digits (n div 10) @ [digit_char (n mod 10)])"
  by pat_completeness auto
termination
  by (relation "measure nat") auto

declare digits.simps [simp del]

text \<open>\<^verbatim>\<open>x.String()\<close> of a \<^verbatim>\<open>big.Int\<close>: base 10, with a minus sign for a negative value.\<close>

definition Int_String :: "int \<Rightarrow> string" where
  "Int_String i = (if i < 0 then CHR ''-'' # digits (- i) else digits i)"

definition digit_val :: "char \<Rightarrow> int option" where
  "digit_val c =
     (let n = of_char c :: int
      in if 48 \<le> n \<and> n \<le> 57 then Some (n - 48)
         else if 97 \<le> n \<and> n \<le> 122 then Some (n - 97 + 10)
         else if 65 \<le> n \<and> n \<le> 90 then Some (n - 65 + 10)
         else None)"

fun scan_digits :: "int \<Rightarrow> int \<Rightarrow> string \<Rightarrow> int option" where
  "scan_digits base acc [] = Some acc"
| "scan_digits base acc (c # cs) =
     (case digit_val c of
        Some d \<Rightarrow> if d < base then scan_digits base (acc * base + d) cs else None
      | None \<Rightarrow> None)"

text \<open>
  \<^verbatim>\<open>z.SetString(s, base)\<close> for an explicit base of 10 or 16: an optional sign, then at
  least one digit of that base, and nothing else; \<open>None\<close> is the failure result.
\<close>

definition Int_SetString :: "string \<Rightarrow> int \<Rightarrow> int option" where
  "Int_SetString s base =
     (let (neg, rest) =
        (case s of
           c # r \<Rightarrow> if c = CHR ''-'' then (True, r) else if c = CHR ''+'' then (False, r)
                    else (False, s)
         | [] \<Rightarrow> (False, s))
      in if rest = [] then None
         else case scan_digits base 0 rest of
                None \<Rightarrow> None
              | Some n \<Rightarrow> Some (if neg then - n else n))"

text \<open>\<^verbatim>\<open>strings.TrimRight(s, "0")\<close>, \<^verbatim>\<open>strings.Trim(s, "\"")\<close>, \<^verbatim>\<open>HasSuffix\<close>, \<^verbatim>\<open>HasPrefix\<close>.\<close>

definition TrimRight :: "string \<Rightarrow> char \<Rightarrow> string" where
  "TrimRight s c = rev (dropWhile (\<lambda>x. x = c) (rev s))"

definition Trim :: "string \<Rightarrow> char \<Rightarrow> string" where
  "Trim s c = TrimRight (dropWhile (\<lambda>x. x = c) s) c"

definition HasSuffix :: "string \<Rightarrow> string \<Rightarrow> bool" where
  "HasSuffix s t \<longleftrightarrow> length t \<le> length s \<and> drop (length s - length t) s = t"

definition HasPrefix :: "string \<Rightarrow> string \<Rightarrow> bool" where
  "HasPrefix s t \<longleftrightarrow> take (length t) s = t"

text \<open>
  \<^verbatim>\<open>x.Text('f', prec)\<close> of a \<^verbatim>\<open>big.Float\<close>: for \<open>prec \<ge> 0\<close> the exact value rounded half to
  even at \<open>prec\<close> fractional digits, written as integer part, point and \<open>prec\<close> digits (no
  point for \<open>prec = 0\<close>). A negative \<open>prec\<close> asks for the shortest decimal that reads back
  to \<open>x\<close>; that algorithm is taken as the parameter \<open>shortest\<close>.
\<close>

definition fmtF :: "rat \<Rightarrow> nat \<Rightarrow> string" where
  "fmtF a n =
     (let m = round_half_even (a * of_int (10 ^ n));
          ds = digits m;
          padded = replicate (n + 1 - length ds) CHR ''0'' @ ds;
          k = length padded - n
      in take k padded @ (if 0 < n then CHR ''.'' # drop k padded else []))"

definition Float_Text_f :: "(bigfloat \<Rightarrow> string) \<Rightarrow> bigfloat \<Rightarrow> int \<Rightarrow> string" where
  "Float_Text_f shortest x prec =
     (case x of
        BInf _ n \<Rightarrow> (if n then ''-Inf'' else ''+Inf'')
      | BFin _ a \<Rightarrow>
          if prec < 0 then shortest x
          else if a < 0 then CHR ''-'' # fmtF \<bar>a\<bar> (nat prec)
          else fmtF a (nat prec))"

subsection \<open>The scale caches\<close>

text \<open>
  \<^verbatim>\<open>pow10Cache\<close> and \<^verbatim>\<open>pow10FloatCache\<close> are package-level maps that the functions read and
  extend; they are threaded through every function that touches them. A
  \<^verbatim>\<open>new(big.Float).SetInt(k)\<close> has precision \<open>max (bitlen k) 64\<close>.
\<close>

definition Float_SetInt :: "int \<Rightarrow> bigfloat" where
  "Float_SetInt k = BFin (max (nat (bitlen \<bar>k\<bar>)) 64) (of_int k)"

record caches =
  pow10Cache :: "64 word \<rightharpoonup> int"
  pow10FloatCache :: "64 word \<rightharpoonup> bigfloat"

definition init_caches :: caches where
  "init_caches =
     \<lparr> pow10Cache = [14 \<mapsto> Exp10 14, 18 \<mapsto> Exp10 18],
       pow10FloatCache = [14 \<mapsto> Float_SetInt (Exp10 14), 18 \<mapsto> Float_SetInt (Exp10 18)] \<rparr>"

text \<open>The invariant of the caches: an entry for \<open>y\<close> holds the power of ten for \<open>y\<close>.\<close>

definition caches_ok :: "caches \<Rightarrow> bool" where
  "caches_ok s \<longleftrightarrow>
     (\<forall>y k. pow10Cache s y = Some k \<longrightarrow> k = Exp10 y) \<and>
     (\<forall>y d. pow10FloatCache s y = Some d \<longrightarrow> d = Float_SetInt (Exp10 y))"

text \<open>The lookup-or-compute step shared by \<^verbatim>\<open>FloatToBigIntBaseX\<close> and \<^verbatim>\<open>UnBaseX\<close>.\<close>

definition cached_pow10 :: "64 word \<Rightarrow> caches \<Rightarrow> int \<times> caches" where
  "cached_pow10 y s =
     (case pow10Cache s y of
        Some k \<Rightarrow> (k, s)
      | None \<Rightarrow> (let k = Exp10 y in (k, s\<lparr>pow10Cache := (pow10Cache s)(y \<mapsto> k)\<rparr>)))"

section \<open>safemath.go\<close>

definition UnBaseX :: "int option \<Rightarrow> 64 word \<Rightarrow> caches \<Rightarrow> int outcome \<times> caches" where
  "UnBaseX f y s =
     (case f of
        None \<Rightarrow> (Returns 0, s)
      | Some v \<Rightarrow>
          if v < 0 then (Returns 0, s)
          else let (k, s') = cached_pow10 y s in (Int_Div v k, s'))"


datatype error =
    ErrNegativeInput | ErrTooLarge | ErrPrecisionLoss | ErrInvalidString | ErrInvalidInput
  | ErrSyntax | ErrJSON
  | ErrorNew string

definition BigInt2BigFloat :: "int option \<Rightarrow> 8 word \<Rightarrow> caches \<Rightarrow> bigfloat outcome \<times> caches" where
  "BigInt2BigFloat i decimal s =
     (case i of
        None \<Rightarrow> (Float_SetFloat64 (Fin 0), s)
      | Some v \<Rightarrow>
          let fi = Float_SetInt v;
              key = (ucast decimal :: 64 word);
              (divisor, s') =
                (case pow10FloatCache s key of
                   Some d \<Rightarrow> (d, s)
                 | None \<Rightarrow>
                     (let divInt = Exp10 key; d = Float_SetInt divInt
                      in (d, s\<lparr>pow10FloatCache := (pow10FloatCache s)(key \<mapsto> d)\<rparr>)))
          in (Float_Quo 0 fi divisor, s'))"

definition BigInt2Float ::
  "int option \<Rightarrow> 8 word \<Rightarrow> caches \<Rightarrow> (error + float64) outcome \<times> caches" where
  "BigInt2Float i decimal s =
     (case i of
        None \<Rightarrow> (Returns (Inl ErrInvalidInput), s)
      | Some v \<Rightarrow>
          if v < 0 then (Returns (Inl ErrNegativeInput), s)
          else let (f, s') = BigInt2BigFloat i decimal s
               in (obind f (\<lambda>f.
                     let (ff, acc) = Float_Float64 f
                     in if acc = Above then Returns (Inl ErrPrecisionLoss)
                        else Returns (Inr ff)), s'))"

text \<open>
  The deviation check of \<^verbatim>\<open>FloatToBigIntBaseX\<close> is kept as the source has it: the branch
  taken on a deviation above 0.1% holds only a commented-out log call.
\<close>

definition FloatToBigIntBaseX :: "float64 \<Rightarrow> 64 word \<Rightarrow> caches \<Rightarrow> int outcome \<times> caches" where
  "FloatToBigIntBaseX val y s =
     (if f64_lt val (Fin 0) then (Returns 0, s)
      else case Float_SetFloat64 val of
        Panics e \<Rightarrow> (Panics e, s)
      | Returns bigval \<Rightarrow>
          let (k, s') = cached_pow10 y s;
              coin = Float_SetInt k
          in (obind (Float_Mul (bprec bigval) bigval coin) (\<lambda>bigval.
              let result = (case Float_Int bigval of Some n \<Rightarrow> n | None \<Rightarrow> 0)
              in obind (Float_Quo 0 (Float_SetInt result) coin) (\<lambda>check.
                 obind (Float_SetFloat64 val) (\<lambda>v.
                   if Float_Cmp check v \<noteq> 0
                   then obind (Float_Sub 0 check v) (\<lambda>diff.
                        let diff = Float_Abs diff
                        in obind (NewFloat (f64_lit (1 / 1000))) (\<lambda>c.
                           obind (Float_Mul 0 v c) (\<lambda>limit.
                             if 0 < Float_Cmp diff limit then Returns result
                             else Returns result)))
                   else Returns result))), s'))"

definition BigIntBaseX ::
  "(float64 \<Rightarrow> 64 word) \<Rightarrow> float64 \<Rightarrow> 64 word \<Rightarrow> caches \<Rightarrow> int outcome \<times> caches" where
  "BigIntBaseX impl f y s =
     (if f64_lt f (Fin 0) then (Returns 0, s)
      else if sint y \<le> 14 then
        (case pow10Cache s y of
           None \<Rightarrow> (Panics NilPointer, s)
         | Some c \<Rightarrow>
             if f64_lt f (f64_div (f64_lit (2 ^ 63 - 1)) (f64_of_int64 (Int_Int64 c)))
             then (let k = Int_Int64 c
                   in (Returns (sint (f64_to_int64 impl (f64_mul f (f64_of_int64 k)))), s))
             else FloatToBigIntBaseX f y s)
      else FloatToBigIntBaseX f y s)"

definition UnBaseXFloatString ::
  "(bigfloat \<Rightarrow> string) \<Rightarrow> int option \<Rightarrow> 64 word \<Rightarrow> 64 word \<Rightarrow> caches
     \<Rightarrow> string outcome \<times> caches" where
  "UnBaseXFloatString shortest f y show_dec s =
     (case f of
        None \<Rightarrow> (Returns ''0'', s)
      | Some v \<Rightarrow>
          if v < 0 then (Returns ''0'', s)
          else
            let show_dec = (if 100 < sint show_dec then 100 else show_dec);
                flo = Float_SetInt v;
                (divisor, s') =
                  (case pow10FloatCache s y of
                     Some d \<Rightarrow> (d, s)
                   | None \<Rightarrow>
                       (let divInt = Exp10 y; d = Float_SetInt divInt
                        in (d, s\<lparr>pow10FloatCache := (pow10FloatCache s)(y \<mapsto> d)\<rparr>)))
            in (obind (Float_Quo (bprec flo) flo divisor) (\<lambda>flo.
                  let str = Float_Text_f shortest flo (sint show_dec)
                  in if CHR ''.'' \<in> set str
                     then (let str = TrimRight str CHR ''0''
                           in if HasSuffix str ''.'' then Returns (str @ ''0'')
                              else Returns str)
                     else Returns str), s'))"

definition ProcessFloatToDecimalAdjustment :: "64 word \<Rightarrow> float64 \<Rightarrow> int outcome" where
  "ProcessFloatToDecimalAdjustment decimal64b state_amt =
     (if f64_lt state_amt (Fin 0) then Returns 0
      else obind (Float_SetFloat64 state_amt) (\<lambda>f.
           let pow = Exp10 decimal64b;
               powF = Float_SetInt pow
           in obind (Float_Mul (bprec f) f powF) (\<lambda>f.
              Returns (case Float_Int f of Some n \<Rightarrow> n | None \<Rightarrow> 0))))"

section \<open>number.go\<close>

definition WeiToEther :: "int option \<Rightarrow> (error + float64) outcome" where
  "WeiToEther wei =
     (case wei of
        None \<Rightarrow> Returns (Inl (ErrorNew ''wei value is nil''))
      | Some w \<Rightarrow>
          if w < 0 then Returns (Inl (ErrorNew ''negative wei value is invalid''))
          else let weiFloat = Float_SetInt w
               in obind (NewFloat (f64_lit (10 ^ 18))) (\<lambda>d.
                  obind (Float_Quo 0 weiFloat d) (\<lambda>etherFloat.
                    let (ether, accuracy) = Float_Float64 etherFloat
                    in if accuracy = Above
                       then Returns (Inl (ErrorNew ''precision loss during conversion to float64''))
                       else Returns (Inr ether))))"

definition etherDivisor :: "bigfloat outcome" where
  "etherDivisor = NewFloat (f64_lit (10 ^ 18))"

definition maxSafeWei :: int where
  "maxSafeWei = push_bit 53 1 * 10 ^ 18"

text \<open>
  \<^verbatim>\<open>int64(9.223372036854775807e18)\<close> is a constant conversion, evaluated exactly: the
  largest \<^verbatim>\<open>int64\<close>.
\<close>

definition maxSafeInt64 :: "64 word" where
  "maxSafeInt64 = 9223372036854775807"

definition WeiToEtherOptimized :: "int option \<Rightarrow> (error + float64) outcome" where
  "WeiToEtherOptimized wei =
     (case wei of
        None \<Rightarrow> Returns (Inl (ErrorNew ''wei value is nil''))
      | Some w \<Rightarrow>
          if w < 0 then Returns (Inl (ErrorNew ''negative wei value is invalid''))
          else if IsInt64 w \<and> sint (Int_Int64 w) \<le> sint maxSafeInt64
          then (let weiInt64 = Int_Int64 w;
                    result = f64_div (f64_of_int64 weiInt64) (f64_lit (10 ^ 18))
                in if result \<noteq> Fin 0 \<and> f64_lt result (f64_lit (1 / 10 ^ 17))
                   then Returns (Inl (ErrorNew ''precision loss during conversion to float64''))
                   else Returns (Inr result))
          else let weiFloat = Float_SetInt w
               in obind etherDivisor (\<lambda>d.
                  obind (Float_Quo 0 weiFloat d) (\<lambda>etherFloat.
                    let (ether, accuracy) = Float_Float64 etherFloat
                    in if accuracy = Above
                       then Returns (Inl (ErrorNew ''precision loss during conversion to float64''))
                       else Returns (Inr ether))))"

definition WeiToEtherSafe :: "int option \<Rightarrow> (error + float64) outcome" where
  "WeiToEtherSafe wei =
     (case wei of
        None \<Rightarrow> Returns (Inl (ErrorNew ''wei value is nil''))
      | Some w \<Rightarrow>
          if w < 0 then Returns (Inl (ErrorNew ''negative wei value is invalid''))
          else if maxSafeWei < w
          then Returns (Inl (ErrorNew ''wei value too large for precise float64 conversion''))
          else let weiFloat = Float_SetInt w
               in obind etherDivisor (\<lambda>d.
                  obind (Float_Quo 0 weiFloat d) (\<lambda>etherFloat.
                    let (ether, accuracy) = Float_Float64 etherFloat
                    in if accuracy = Above
                       then Returns (Inl (ErrorNew ''precision loss during conversion to float64''))
                       else Returns (Inr ether))))"

definition EtherToWei :: "float64 \<Rightarrow> (error + int) outcome" where
  "EtherToWei ether =
     (if IsNaN ether \<or> IsInf ether
      then Returns (Inl (ErrorNew ''invalid ether value: NaN or Inf''))
      else if f64_lt ether (Fin 0)
      then Returns (Inl (ErrorNew ''negative ether value is invalid''))
      else obind (NewFloat ether) (\<lambda>etherFloat.
           obind etherDivisor (\<lambda>d.
           obind (Float_Mul 0 etherFloat d) (\<lambda>weiFloat.
             let wei = (case Float_Int weiFloat of Some n \<Rightarrow> n | None \<Rightarrow> 0)
             in obind (Float_Sub 0 weiFloat (Float_SetInt wei)) (\<lambda>remainder.
                if Float_Sign remainder \<noteq> 0
                then obind (NewFloat (f64_lit (10 ^ 18))) (\<lambda>c.
                     obind (Float_Mul 0 remainder c) (\<lambda>remainderWei.
                     obind (NewFloat (f64_lit (1 / 2))) (\<lambda>half.
                       if 0 \<le> Float_Cmp remainderWei half
                       then Returns (Inl (ErrorNew ''precision loss during conversion to Wei''))
                       else Returns (Inr wei))))
                else Returns (Inr wei))))))"


section \<open>The BigInt wrapper\<close>

text \<open>
  \<^verbatim>\<open>BigInt\<close> wraps a \<^verbatim>\<open>*big.Int\<close>; its value is an \<open>int option\<close>, \<open>None\<close> for the nil
  state. \<^verbatim>\<open>UnmarshalJSON\<close> first decodes its bytes with \<^verbatim>\<open>json.Unmarshal\<close> into an
  \<^verbatim>\<open>interface{}\<close>; the model starts from that decoder's result, an error or one of the
  values below. \<^verbatim>\<open>strconv.FormatFloat(v, 'f', -1, 64)\<close> is the parameter \<open>fmt\<close>. The pool
  only recycles allocations; after a failed decode the wrapper is left pointing at a
  released allocation, and the model returns the error alone.
\<close>

datatype json_value = JNull | JBool bool | JNumber float64 | JString string | JArray | JObject

definition UnmarshalJSON ::
  "(float64 \<Rightarrow> 64 word) \<Rightarrow> (float64 \<Rightarrow> string) \<Rightarrow> error + json_value \<Rightarrow> error + int option" where
  "UnmarshalJSON impl fmt decoded =
     (case decoded of
        Inl err \<Rightarrow> Inl err
      | Inr val \<Rightarrow>
          (case val of
             JNumber v \<Rightarrow>
               if IsNaN v \<or> IsInf v then Inl ErrSyntax
               else if (case v of Fin r \<Rightarrow> r = of_int (trunc r) | _ \<Rightarrow> False)
                       \<and> \<not> f64_lt (f64_lit (2 ^ 63 - 1)) v \<and> \<not> f64_lt v (f64_lit (- (2 ^ 63)))
               then Inr (Some (sint (f64_to_int64 impl v)))
               else (case Int_SetString (fmt v) 10 of
                       Some n \<Rightarrow> Inr (Some n)
                     | None \<Rightarrow> Inl ErrSyntax)
           | JString v \<Rightarrow>
               let v = Trim v (CHR 0x22)
               in if length v = 0 then Inr None
                  else (case Int_SetString v 10 of
                          Some n \<Rightarrow> Inr (Some n)
                        | None \<Rightarrow>
                            if HasPrefix v ''0x''
                            then (case Int_SetString (drop 2 v) 16 of
                                    Some n \<Rightarrow> Inr (Some n)
                                  | None \<Rightarrow> Inl ErrSyntax)
                            else Inl ErrSyntax)
           | JNull \<Rightarrow> Inr None
           | _ \<Rightarrow> Inl ErrSyntax))"

text \<open>
  \<^verbatim>\<open>MarshalJSON\<close> hands \<^verbatim>\<open>nil\<close> or the string \<^verbatim>\<open>b.String()\<close> to \<^verbatim>\<open>json.Marshal\<close>; the model
  returns the JSON value that call encodes.
\<close>

definition MarshalJSON :: "int option \<Rightarrow> json_value" where
  "MarshalJSON b = (case b of None \<Rightarrow> JNull | Some i \<Rightarrow> JString (Int_String i))"

section \<open>The specification's bridge\<close>

text \<open>
  The specification describes the conversions through \<open>toDecimal\<close>: the scaled integer
  divided by the decimal-float form of the scale factor, and the accuracy class of
  narrowing that quotient to a machine double. These definitions follow the
  specification's words; the theorems compare the code with them.
\<close>

definition spec_toDecimal :: "int \<Rightarrow> nat \<Rightarrow> bigfloat outcome" where
  "spec_toDecimal v e = Float_Quo 0 (Float_SetInt v) (Float_SetInt (10 ^ e))"

text \<open>\<open>toDouble\<close> with the policy "reject rounded up, accept rounded down or exact".\<close>

definition spec_toDouble :: "error \<Rightarrow> int \<Rightarrow> nat \<Rightarrow> (error + float64) outcome" where
  "spec_toDouble err v e =
     obind (spec_toDecimal v e) (\<lambda>q.
       Returns (if snd (Float_Float64 q) = Above then Inl err else Inr (fst (Float_Float64 q))))"

definition spec_accuracy :: "int \<Rightarrow> nat \<Rightarrow> accuracy outcome" where
  "spec_accuracy v e = obind (spec_toDecimal v e) (\<lambda>q. Returns (snd (Float_Float64 q)))"

section \<open>Auxiliary notions for the fast path of BigIntBaseX\<close>

text \<open>A rational is a \<^verbatim>\<open>float64\<close> value when rounding leaves it unchanged.\<close>

definition is_f64 :: "rat \<Rightarrow> bool" where
  "is_f64 r \<longleftrightarrow> f64_round r = Fin r"

text \<open>
  The margin of the guard \<^verbatim>\<open>f < math.MaxInt64 / float64(k)\<close>: the scale factor \<open>k\<close> is a
  \<^verbatim>\<open>float64\<close>, and the largest \<^verbatim>\<open>float64\<close> below the bound, multiplied by \<open>k\<close>, stays more
  than half a unit in the last place below \<open>2 ^ 63\<close>. It is checked by evaluation for
  each power of ten from 10 to \<open>10 ^ 14\<close>.
\<close>

definition fast_path_margin :: "int \<Rightarrow> bool" where
  "fast_path_margin k \<longleftrightarrow>
     f64_round (of_int k) = Fin (of_int k) \<and>
     (case f64_round (9223372036854775808 / of_int k) of
        Fin B \<Rightarrow>
          (let e = ilog2 B; P = B - pow2 (e - 52)
           in 0 < B \<and> is_f64 B \<and> - 1022 \<le> e \<and> pow2 e \<le> P
              \<and> P * of_int k < 9223372036854775808 - 512)
      | _ \<Rightarrow> False)"

section \<open>Properties\<close>

lemma Exp10_pos: "0 < Exp10 y"
  by (simp add: Exp10_def)

lemma caches_ok_init: "caches_ok init_caches"
  by (simp add: caches_ok_def init_caches_def)

lemma cached_pow10_value: "caches_ok s \<Longrightarrow> fst (cached_pow10 y s) = Exp10 y"
  by (auto simp: cached_pow10_def caches_ok_def Let_def split: option.splits)

lemma cached_pow10_ok: "caches_ok s \<Longrightarrow> caches_ok (snd (cached_pow10 y s))"
  by (auto simp: cached_pow10_def caches_ok_def Let_def split: option.splits)

lemma pow2_powi: "pow2 k = 2 powi k"
  by (simp add: pow2_def power_int_def power_one_over)

lemma f64_lit_1e18: "f64_lit 1000000000000000000 = Fin 1000000000000000000"
  by code_simp

lemma NewFloat_1e18: "NewFloat (f64_lit 1000000000000000000) = Returns (BFin 53 1000000000000000000)"
  by (simp add: NewFloat_def Float_SetFloat64_def f64_lit_1e18)

lemma etherDivisor_value: "etherDivisor = Returns (BFin 53 1000000000000000000)"
  by (simp add: etherDivisor_def NewFloat_1e18)

lemma bitlen_1e18: "bitlen 1000000000000000000 = 60"
  by code_simp

lemma spec_toDecimal_18:
  "spec_toDecimal w 18 = Float_Quo 0 (Float_SetInt w) (BFin 53 1000000000000000000)"
  by (simp add: spec_toDecimal_def Float_SetInt_def Float_Quo_def zprec_def bitlen_1e18 max_def)

lemma WeiToEther_spec:
  "0 \<le> w \<Longrightarrow> WeiToEther (Some w) =
     spec_toDouble (ErrorNew ''precision loss during conversion to float64'') w 18"
  by (simp add: WeiToEther_def spec_toDouble_def spec_toDecimal_18 NewFloat_1e18 obind_def
      split: outcome.splits prod.splits)

lemma WeiToEtherSafe_spec:
  "0 \<le> w \<Longrightarrow> w \<le> maxSafeWei \<Longrightarrow> WeiToEtherSafe (Some w) =
     spec_toDouble (ErrorNew ''precision loss during conversion to float64'') w 18"
  by (simp add: WeiToEtherSafe_def spec_toDouble_def spec_toDecimal_18 etherDivisor_value obind_def
      split: outcome.splits prod.splits)

lemma IsInt64_iff: "0 \<le> w \<Longrightarrow> IsInt64 w \<longleftrightarrow> w < 2 ^ 63"
  by (simp add: IsInt64_def)

lemma sint_le_max: "sint (x :: 64 word) \<le> sint maxSafeInt64"
proof -
  have "sint x < 2 ^ 63" using sint_lt [of x] by simp
  moreover have "sint maxSafeInt64 = 2 ^ 63 - 1" by (simp add: maxSafeInt64_def)
  ultimately show ?thesis by simp
qed

lemma WeiToEtherOptimized_slow:
  "2 ^ 63 \<le> w \<Longrightarrow> WeiToEtherOptimized (Some w) =
     spec_toDouble (ErrorNew ''precision loss during conversion to float64'') w 18"
  by (simp add: WeiToEtherOptimized_def IsInt64_def spec_toDouble_def spec_toDecimal_18 etherDivisor_value obind_def
      split: outcome.splits prod.splits)

lemma spec_toDecimal_total: "\<exists>q. spec_toDecimal v e = Returns q"
  by (simp add: spec_toDecimal_def Float_SetInt_def Float_Quo_def Let_def)

lemma sint_ucast_u8: "sint (ucast (d :: 8 word) :: 64 word) = uint d"
proof -
  have u: "uint (ucast d :: 64 word) = uint d"
    by (simp add: uint_up_ucast is_up)
  have "uint d < 256"
    using uint_lt2p [of d] by simp
  moreover have "- 9223372036854775808 \<le> uint d"
    by (rule order_trans [of _ 0]) simp_all
  ultimately have "signed_take_bit 63 (uint d) = uint d"
    by (simp add: signed_take_bit_int_eq_self_iff)
  then show ?thesis
    by (simp add: sint_uint u)
qed

lemma Exp10_ucast: "Exp10 (ucast (d :: 8 word)) = 10 ^ unat d"
proof -
  have "sint (ucast d :: 64 word) = int (unat d)"
    by (simp add: sint_ucast_u8)
  moreover have "unat d = 0 \<Longrightarrow> (10 :: int) ^ unat d = 1"
    by simp
  ultimately show ?thesis
    by (auto simp: Exp10_def uint_0_iff)
qed

lemma cache_float_lookup:
  "caches_ok s \<Longrightarrow> pow10FloatCache s y = Some d \<Longrightarrow> d = Float_SetInt (Exp10 y)"
  by (simp add: caches_ok_def)

lemma cache_int_lookup:
  "caches_ok s \<Longrightarrow> pow10Cache s y = Some k \<Longrightarrow> k = Exp10 y"
  by (simp add: caches_ok_def)

lemma BigInt2BigFloat_spec:
  "caches_ok s \<Longrightarrow> fst (BigInt2BigFloat (Some v) d s) = spec_toDecimal v (unat d)"
  by (auto simp: BigInt2BigFloat_def spec_toDecimal_def Exp10_ucast Let_def
      split: option.splits dest: cache_float_lookup)

lemma BigInt2BigFloat_ok:
  "caches_ok s \<Longrightarrow> caches_ok (snd (BigInt2BigFloat i d s))"
  by (auto simp: BigInt2BigFloat_def caches_ok_def Let_def split: option.splits)

lemma BigInt2Float_spec:
  "caches_ok s \<Longrightarrow> 0 \<le> v \<Longrightarrow>
     fst (BigInt2Float (Some v) d s) = spec_toDouble ErrPrecisionLoss v (unat d)"
  using BigInt2BigFloat_spec [of s v d]
  by (cases "BigInt2BigFloat (Some v) d s")
     (simp add: BigInt2Float_def spec_toDouble_def obind_def split: outcome.splits prod.splits)

lemma spec_accuracy_1: "spec_accuracy 1 18 = Returns Above"
  by code_simp

lemma spec_toDouble_1e18: "spec_toDouble e 1000000000000000000 18 = Returns (Inr (Fin 1))"
  by code_simp

lemma UnBaseX_ok: "caches_ok s \<Longrightarrow> caches_ok (snd (UnBaseX f y s))"
  using cached_pow10_ok [of s y]
  by (auto simp: UnBaseX_def split: option.splits prod.splits)

subsection \<open>The float-to-integer bridge\<close>

lemma obind_Returns [simp]: "obind (Returns a) f = f a"
  by (simp add: obind_def)

lemma obind_Panics [simp]: "obind (Panics p) f = Panics p"
  by (simp add: obind_def)

lemma f64_lit_milli:
  "f64_lit (1 / 1000) = Fin (1152921504606847 / 1152921504606846976)"
  by code_simp

lemma Float_SetInt_fin: "Float_SetInt k = BFin (max (nat (bitlen \<bar>k\<bar>)) 64) (of_int k)"
  by (simp add: Float_SetInt_def)

lemma FloatToBigIntBaseX_neg:
  "f64_lt val (Fin 0) \<Longrightarrow> FloatToBigIntBaseX val y s = (Returns 0, s)"
  by (simp add: FloatToBigIntBaseX_def)

lemma ProcessFloatToDecimalAdjustment_neg:
  "f64_lt val (Fin 0) \<Longrightarrow> ProcessFloatToDecimalAdjustment y val = Returns 0"
  by (simp add: ProcessFloatToDecimalAdjustment_def)

lemma Float_Mul_fin:
  "Float_Mul z (BFin p a) (BFin q b) =
     Returns (BFin (zprec z (BFin p a) (BFin q b))
       (round_prec (zprec z (BFin p a) (BFin q b)) (a * b)))"
  by (simp add: Float_Mul_def Let_def)

lemma Float_Sub_fin:
  "Float_Sub z (BFin p a) (BFin q b) =
     Returns (BFin (zprec z (BFin p a) (BFin q b))
       (round_prec (zprec z (BFin p a) (BFin q b)) (a - b)))"
  by (simp add: Float_Sub_def Let_def)

lemma Float_Quo_fin:
  "b \<noteq> 0 \<Longrightarrow> Float_Quo z (BFin p a) (BFin q b) =
     Returns (BFin (zprec z (BFin p a) (BFin q b))
       (round_prec (zprec z (BFin p a) (BFin q b)) (a / b)))"
  by (simp add: Float_Quo_def Let_def)

lemma Float_Mul_inf_fin:
  "b \<noteq> 0 \<Longrightarrow> Float_Mul z (BInf p n) (BFin q b) =
     Returns (BInf (zprec z (BInf p n) (BFin q b)) (n \<noteq> (b < 0)))"
  by (simp add: Float_Mul_def Let_def)

lemma Float_Sub_fin_inf:
  "Float_Sub z (BFin p a) (BInf q n) = Returns (BInf (zprec z (BFin p a) (BInf q n)) (\<not> n))"
  by (simp add: Float_Sub_def Let_def)

lemma deviation_check_returns:
  "obind (Float_Sub 0 (BFin pq cq) (BFin 53 r)) (\<lambda>diff.
     obind (NewFloat (f64_lit (1 / 1000))) (\<lambda>c.
       obind (Float_Mul 0 (BFin 53 r) c) (\<lambda>limit. Returns X))) = Returns X"
  by (simp add: Float_Sub_fin NewFloat_def Float_SetFloat64_def f64_lit_milli Float_Mul_fin)

lemma deviation_check_returns_inf:
  "obind (Float_Sub 0 (BFin pq cq) (BInf 53 n)) (\<lambda>diff.
     obind (NewFloat (f64_lit (1 / 1000))) (\<lambda>c.
       obind (Float_Mul 0 (BInf 53 n) c) (\<lambda>limit. Returns X))) = Returns X"
  by (simp add: Float_Sub_fin_inf NewFloat_def Float_SetFloat64_def f64_lit_milli
      Float_Mul_inf_fin)

lemma FloatToBigIntBaseX_fin:
  assumes "caches_ok s" and "0 \<le> r"
  shows "fst (FloatToBigIntBaseX (Fin r) y s) =
    Returns (trunc (round_prec 53 (r * of_int (Exp10 y))))"
proof -
  obtain k s' where c: "cached_pow10 y s = (k, s')"
    by (cases "cached_pow10 y s")
  have k: "k = Exp10 y"
    using cached_pow10_value [OF assms(1), of y] c by simp
  have k0: "k \<noteq> 0"
    using Exp10_pos [of y] k by simp
  define P where "P = round_prec 53 (r * of_int k)"
  have lt: "\<not> f64_lt (Fin r) (Fin 0)"
    using assms(2) by (simp add: f64_lt_def)
  have sf: "Float_SetFloat64 (Fin r) = Returns (BFin 53 r)"
    by (simp add: Float_SetFloat64_def)
  have m: "Float_Mul 53 (BFin 53 r) (Float_SetInt k) = Returns (BFin 53 P)"
    by (simp add: Float_Mul_fin zprec_def Float_SetInt_def P_def)
  obtain pq cq where q:
    "Float_Quo 0 (Float_SetInt (trunc P)) (Float_SetInt k) = Returns (BFin pq cq)"
    using k0 by (simp add: Float_Quo_fin Float_SetInt_def)
  have "fst (FloatToBigIntBaseX (Fin r) y s) = Returns (trunc P)"
    by (simp add: FloatToBigIntBaseX_def lt sf c m q deviation_check_returns)
  then show ?thesis
    by (simp add: P_def k)
qed

lemma ProcessFloatToDecimalAdjustment_fin:
  "0 \<le> r \<Longrightarrow> ProcessFloatToDecimalAdjustment y (Fin r) =
     Returns (trunc (round_prec 53 (r * of_int (Exp10 y))))"
  by (simp add: ProcessFloatToDecimalAdjustment_def f64_lt_def Float_SetFloat64_def
      Float_SetInt_def Float_Mul_fin zprec_def)

lemma FloatToBigIntBaseX_NaN: "fst (FloatToBigIntBaseX NaN y s) = Panics ErrNaN"
  by (simp add: FloatToBigIntBaseX_def f64_lt_def Float_SetFloat64_def)

lemma FloatToBigIntBaseX_PInf:
  assumes "caches_ok s"
  shows "fst (FloatToBigIntBaseX PInf y s) = Returns 0"
proof -
  obtain k s' where c: "cached_pow10 y s = (k, s')"
    by (cases "cached_pow10 y s")
  have k: "k = Exp10 y"
    using cached_pow10_value [OF assms(1), of y] c by simp
  have k0: "k \<noteq> 0" "\<not> k < 0"
    using Exp10_pos [of y] k by simp_all
  have lt: "\<not> f64_lt PInf (Fin 0)"
    by (simp add: f64_lt_def)
  have sf: "Float_SetFloat64 PInf = Returns (BInf 53 False)"
    by (simp add: Float_SetFloat64_def)
  have m: "Float_Mul 53 (BInf 53 False) (Float_SetInt k) = Returns (BInf 53 False)"
    using k0 by (simp add: Float_Mul_inf_fin zprec_def Float_SetInt_def)
  obtain pq cq where q:
    "Float_Quo 0 (Float_SetInt 0) (Float_SetInt k) = Returns (BFin pq cq)"
    using k0 by (simp add: Float_Quo_fin Float_SetInt_def)
  show ?thesis
    by (simp add: FloatToBigIntBaseX_def lt sf c m q deviation_check_returns_inf)
qed

lemma FloatToBigIntBaseX_ok: "caches_ok s \<Longrightarrow> caches_ok (snd (FloatToBigIntBaseX val y s))"
  using cached_pow10_ok [of s y]
  by (auto simp: FloatToBigIntBaseX_def Let_def split: outcome.splits prod.splits)

lemma EtherToWei_rejects:
  "EtherToWei NaN = Returns (Inl (ErrorNew ''invalid ether value: NaN or Inf''))"
  "EtherToWei PInf = Returns (Inl (ErrorNew ''invalid ether value: NaN or Inf''))"
  "EtherToWei NInf = Returns (Inl (ErrorNew ''invalid ether value: NaN or Inf''))"
  "r < 0 \<Longrightarrow> EtherToWei (Fin r) = Returns (Inl (ErrorNew ''negative ether value is invalid''))"
  by (simp_all add: EtherToWei_def IsNaN_def IsInf_def f64_lt_def)

lemma BigIntBaseX_neg: "f64_lt f (Fin 0) \<Longrightarrow> BigIntBaseX impl f y s = (Returns 0, s)"
  by (simp add: BigIntBaseX_def)

lemma BigIntBaseX_NaN:
  "fst (BigIntBaseX impl NaN y s) =
     (if sint y \<le> 14 \<and> pow10Cache s y = None then Panics NilPointer else Panics ErrNaN)"
  by (simp add: BigIntBaseX_def f64_lt_def FloatToBigIntBaseX_NaN split: option.splits)

subsection \<open>The machine-double boundary\<close>

lemma spec_toDouble_3: "spec_toDouble e 3 18 = Returns (Inr (f64_lit (3 / 10 ^ 18)))"
  by code_simp

lemma spec_accuracy_3: "spec_accuracy 3 18 = Returns Below"
  by code_simp

lemma spec_accuracy_big:
  "spec_accuracy 18014398509481984000000000000000000 18 = Returns Exact"
  by code_simp

lemma spec_toDouble_2p63:
  "spec_toDouble e 9223372036854775808 18 = Returns (Inl e)"
  by code_simp

lemma spec_toDouble_Above:
  "spec_accuracy v e = Returns Above \<Longrightarrow> spec_toDouble err v e = Returns (Inl err)"
  by (auto simp: spec_accuracy_def spec_toDouble_def obind_def split: outcome.splits)

lemma WeiToEtherSafe_too_large:
  "maxSafeWei < w \<Longrightarrow> WeiToEtherSafe (Some w) =
     Returns (Inl (ErrorNew ''wei value too large for precise float64 conversion''))"
proof -
  assume a: "maxSafeWei < w"
  have "0 \<le> maxSafeWei"
    by (simp add: maxSafeWei_def)
  with a have "\<not> w < 0"
    by linarith
  with a show ?thesis
    by (simp add: WeiToEtherSafe_def)
qed

lemma WeiToEtherOptimized_fast:
  "0 \<le> w \<Longrightarrow> w < 2 ^ 63 \<Longrightarrow> WeiToEtherOptimized (Some w) =
     (let q = f64_div (f64_of_int64 (word_of_int w)) (f64_lit (10 ^ 18))
      in if q \<noteq> Fin 0 \<and> f64_lt q (f64_lit (1 / 10 ^ 17))
         then Returns (Inl (ErrorNew ''precision loss during conversion to float64''))
         else Returns (Inr q))"
  using sint_le_max [of "Int_Int64 w"]
  by (simp add: WeiToEtherOptimized_def IsInt64_def Int_Int64_def Let_def)

text \<open>
  C3: in Balanced mode at exponent 18 the scaled integer 1000000000000000000 converts to
  exactly 1.0 without error, and the scaled integer 1 is rejected with a precision-loss
  error, because narrowing its decimal-float form to a double is classified \<open>Above\<close>.
\<close>

theorem toDouble_concrete_cases:
  "WeiToEther (Some 1000000000000000000) = Returns (Inr (Fin 1))
   \<and> WeiToEther (Some 1) =
       Returns (Inl (ErrorNew ''precision loss during conversion to float64''))
   \<and> fst (BigInt2Float (Some 1000000000000000000) 18 init_caches) = Returns (Inr (Fin 1))
   \<and> fst (BigInt2Float (Some 1) 18 init_caches) = Returns (Inl ErrPrecisionLoss)
   \<and> spec_accuracy 1 18 = Returns Above"
  using BigInt2Float_spec [of init_caches 1 18]
    BigInt2Float_spec [of init_caches 1000000000000000000 18]
  by (simp add: WeiToEther_spec caches_ok_init spec_toDouble_1e18 spec_accuracy_1
      spec_toDouble_Above)

text \<open>
  C1, as the code has it: for a non-negative, non-nil scaled integer, \<open>BigInt2Float\<close> (any
  exponent) and \<open>WeiToEther\<close> return an error exactly when narrowing the decimal-float
  intermediate to a double is classified \<open>Above\<close>, and the double otherwise.
  \<open>WeiToEtherSafe\<close> does so for inputs up to \<open>2 ^ 53 * 10 ^ 18\<close>, and
  \<open>WeiToEtherOptimized\<close> for inputs from \<open>2 ^ 63\<close> on.
\<close>

theorem toDouble_rejects_rounded_up:
  "(caches_ok s \<and> 0 \<le> v \<longrightarrow>
      fst (BigInt2Float (Some v) d s) = spec_toDouble ErrPrecisionLoss v (unat d))
   \<and> (0 \<le> v \<longrightarrow> WeiToEther (Some v) =
         spec_toDouble (ErrorNew ''precision loss during conversion to float64'') v 18)
   \<and> (0 \<le> v \<and> v \<le> maxSafeWei \<longrightarrow> WeiToEtherSafe (Some v) =
         spec_toDouble (ErrorNew ''precision loss during conversion to float64'') v 18)
   \<and> (2 ^ 63 \<le> v \<longrightarrow> WeiToEtherOptimized (Some v) =
         spec_toDouble (ErrorNew ''precision loss during conversion to float64'') v 18)"
  by (simp add: BigInt2Float_spec WeiToEther_spec WeiToEtherSafe_spec WeiToEtherOptimized_slow)

theorem toDouble_rejects_rounded_up_witness:
  "fst (BigInt2Float (Some 1000000000000000000) 18 init_caches) = Returns (Inr (Fin 1))
   \<and> WeiToEther (Some 1000000000000000000) = Returns (Inr (Fin 1))
   \<and> WeiToEtherSafe (Some 1000000000000000000) = Returns (Inr (Fin 1))
   \<and> WeiToEtherOptimized (Some 9223372036854775808) =
       Returns (Inl (ErrorNew ''precision loss during conversion to float64''))"
  using toDouble_rejects_rounded_up [of init_caches 1000000000000000000 18]
    toDouble_rejects_rounded_up [of init_caches 9223372036854775808 18]
  by (simp add: caches_ok_init spec_toDouble_1e18 spec_toDouble_2p63 maxSafeWei_def)

text \<open>
  The claim as stated fails for two of the three Wei variants: \<open>WeiToEtherSafe\<close> rejects
  \<open>2 ^ 54 * 10 ^ 18\<close> although its narrowing is exact, and \<open>WeiToEtherOptimized\<close> rejects 3
  although its narrowing rounds down.
\<close>

theorem toDouble_rejects_rounded_up_counterexample:
  "WeiToEtherSafe (Some 18014398509481984000000000000000000) =
     Returns (Inl (ErrorNew ''wei value too large for precise float64 conversion''))
   \<and> spec_accuracy 18014398509481984000000000000000000 18 = Returns Exact
   \<and> WeiToEtherOptimized (Some 3) =
       Returns (Inl (ErrorNew ''precision loss during conversion to float64''))
   \<and> spec_accuracy 3 18 = Returns Below
   \<and> WeiToEther (Some 3) = Returns (Inr (f64_lit (3 / 10 ^ 18)))"
proof -
  have "WeiToEtherOptimized (Some 3) =
      Returns (Inl (ErrorNew ''precision loss during conversion to float64''))"
    by code_simp
  then show ?thesis
    by (simp add: WeiToEtherSafe_too_large maxSafeWei_def spec_accuracy_big spec_accuracy_3
        WeiToEther_spec spec_toDouble_3)
qed

text \<open>
  C4: \<open>WeiToEtherSafe\<close> returns an error for every input above \<open>2 ^ 53 * 10 ^ 18\<close>, whatever
  the conversion would give, and converts every non-negative input up to that bound
  through the decimal-float bridge.
\<close>

theorem WeiToEtherSafe_bound:
  "maxSafeWei = 2 ^ 53 * 10 ^ 18
   \<and> (maxSafeWei < w \<longrightarrow> WeiToEtherSafe (Some w) =
         Returns (Inl (ErrorNew ''wei value too large for precise float64 conversion'')))
   \<and> (0 \<le> w \<and> w \<le> maxSafeWei \<longrightarrow> WeiToEtherSafe (Some w) =
         spec_toDouble (ErrorNew ''precision loss during conversion to float64'') w 18)"
  by (simp add: WeiToEtherSafe_too_large WeiToEtherSafe_spec) (simp add: maxSafeWei_def)

theorem WeiToEtherSafe_bound_witness:
  "WeiToEtherSafe (Some (maxSafeWei + 1)) =
     Returns (Inl (ErrorNew ''wei value too large for precise float64 conversion''))
   \<and> WeiToEtherSafe (Some 1000000000000000000) = Returns (Inr (Fin 1))"
  using WeiToEtherSafe_bound [of "maxSafeWei + 1"]
    WeiToEtherSafe_bound [of 1000000000000000000]
  by (simp add: spec_toDouble_1e18)

text \<open>
  C5: on the fast path of \<open>WeiToEtherOptimized\<close> (a non-negative input below \<open>2 ^ 63\<close>, which
  is when it fits \<^verbatim>\<open>int64\<close> and passes the bound check) the machine quotient decides: a
  nonzero quotient below the double \<^verbatim>\<open>1e-17\<close> is a precision-loss error, zero and
  quotients from \<^verbatim>\<open>1e-17\<close> on are returned. Larger inputs take the same route as
  \<open>WeiToEther\<close>.
\<close>

theorem WeiToEtherOptimized_paths:
  "(0 \<le> w \<and> w < 2 ^ 63 \<longrightarrow>
      IsInt64 w \<and> sint (Int_Int64 w) \<le> sint maxSafeInt64 \<and>
      WeiToEtherOptimized (Some w) =
        (let q = f64_div (f64_of_int64 (word_of_int w)) (f64_lit (10 ^ 18))
         in if q \<noteq> Fin 0 \<and> f64_lt q (f64_lit (1 / 10 ^ 17))
            then Returns (Inl (ErrorNew ''precision loss during conversion to float64''))
            else Returns (Inr q)))
   \<and> (2 ^ 63 \<le> w \<longrightarrow> \<not> IsInt64 w \<and> WeiToEtherOptimized (Some w) = WeiToEther (Some w))"
  using WeiToEtherOptimized_fast [of w] sint_le_max [of "Int_Int64 w"]
  by (simp add: WeiToEtherOptimized_slow WeiToEther_spec IsInt64_def)


theorem WeiToEtherOptimized_paths_witness:
  "WeiToEtherOptimized (Some 3) =
     Returns (Inl (ErrorNew ''precision loss during conversion to float64''))
   \<and> WeiToEtherOptimized (Some 1000000000000000000) = Returns (Inr (Fin 1))
   \<and> WeiToEtherOptimized (Some 9223372036854775808) = WeiToEther (Some 9223372036854775808)"
proof -
  have e3: "(let q = f64_div (f64_of_int64 (word_of_int 3)) (f64_lit (10 ^ 18))
         in if q \<noteq> Fin 0 \<and> f64_lt q (f64_lit (1 / 10 ^ 17))
            then Returns (Inl (ErrorNew ''precision loss during conversion to float64''))
            else Returns (Inr q)) =
      Returns (Inl (ErrorNew ''precision loss during conversion to float64''))"
    by code_simp
  have e18: "(let q = f64_div (f64_of_int64 (word_of_int 1000000000000000000)) (f64_lit (10 ^ 18))
         in if q \<noteq> Fin 0 \<and> f64_lt q (f64_lit (1 / 10 ^ 17))
            then Returns (Inl (ErrorNew ''precision loss during conversion to float64''))
            else Returns (Inr q)) = Returns (Inr (Fin 1))"
    by code_simp
  have h3: "0 \<le> (3 :: int) \<and> (3 :: int) < 2 ^ 63"
    and h18: "0 \<le> (1000000000000000000 :: int) \<and> (1000000000000000000 :: int) < 2 ^ 63"
    and h63: "(2 :: int) ^ 63 \<le> 9223372036854775808"
    by simp_all
  from h3 WeiToEtherOptimized_paths [of 3] e3 have
    "WeiToEtherOptimized (Some 3) =
      Returns (Inl (ErrorNew ''precision loss during conversion to float64''))"
    by metis
  moreover from h18 WeiToEtherOptimized_paths [of 1000000000000000000] e18 have
    "WeiToEtherOptimized (Some 1000000000000000000) = Returns (Inr (Fin 1))"
    by metis
  moreover from h63 WeiToEtherOptimized_paths [of 9223372036854775808] have
    "WeiToEtherOptimized (Some 9223372036854775808) = WeiToEther (Some 9223372036854775808)"
    by blast
  ultimately show ?thesis
    by blast
qed

lemma trunc_example: "trunc (round_prec 53 (3 / 2 * of_int (Exp10 18))) = 1500000000000000000"
  by code_simp

lemma trunc_deviating: "trunc (round_prec 53 (3 / 2 ^ 61 * of_int (Exp10 18))) = 1"
  by code_simp

lemma f64_lit_three_tenths:
  "f64_lit (3 / 10) = Fin (5404319552844595 / 18014398509481984)"
  by code_simp

lemma trunc_rounded_three_tenths:
  "trunc (round_prec 53 (5404319552844595 / 18014398509481984 * of_int (Exp10 18))) =
     300000000000000000"
  by code_simp

lemma trunc_exact_three_tenths:
  "trunc (5404319552844595 / 18014398509481984 * 10 ^ 18) = 299999999999999988"
  by code_simp

lemma ProcessFloatToDecimalAdjustment_PInf:
  "ProcessFloatToDecimalAdjustment y PInf = Returns 0"
proof -
  have "of_int (Exp10 y) \<noteq> (0 :: rat)" "\<not> (of_int (Exp10 y) :: rat) < 0"
    using Exp10_pos [of y] by simp_all
  then show ?thesis
    by (simp add: ProcessFloatToDecimalAdjustment_def f64_lt_def Float_SetFloat64_def
        Float_SetInt_def Float_Mul_inf_fin)
qed

text \<open>
  C6, as the code has it: \<open>FloatToBigIntBaseX\<close> and \<open>ProcessFloatToDecimalAdjustment\<close>
  return zero, not a failure, for every negative input (minus infinity included). For
  every finite non-negative input they return the truncation of the \<^verbatim>\<open>big.Float\<close> product
  of the value and the power of ten, which \<^verbatim>\<open>Mul\<close> rounds to nearest even at the 53 bits
  of its receiver; for plus infinity they return zero. Nothing in the result depends on
  the deviation check, so a deviation above 0.1% is not a failure.
\<close>

theorem fromFloat_clamps_and_truncates:
  "(f64_lt val (Fin 0) \<longrightarrow>
      FloatToBigIntBaseX val y s = (Returns 0, s) \<and>
      ProcessFloatToDecimalAdjustment y val = Returns 0)
   \<and> (caches_ok s \<and> 0 \<le> r \<longrightarrow>
      fst (FloatToBigIntBaseX (Fin r) y s) =
        Returns (trunc (round_prec 53 (r * of_int (Exp10 y)))) \<and>
      ProcessFloatToDecimalAdjustment y (Fin r) =
        Returns (trunc (round_prec 53 (r * of_int (Exp10 y)))))
   \<and> (caches_ok s \<longrightarrow>
      fst (FloatToBigIntBaseX PInf y s) = Returns 0 \<and>
      ProcessFloatToDecimalAdjustment y PInf = Returns 0)"
  by (simp add: FloatToBigIntBaseX_neg ProcessFloatToDecimalAdjustment_neg
      FloatToBigIntBaseX_fin ProcessFloatToDecimalAdjustment_fin
      FloatToBigIntBaseX_PInf ProcessFloatToDecimalAdjustment_PInf)

text \<open>
  At \<open>3 / 2 ^ 61\<close> (about \<open>1.3e-18\<close>) and exponent 18 the result 1 reconverts to \<open>1e-18\<close>,
  more than 0.1% away from the input, and is returned all the same.
\<close>

theorem fromFloat_clamps_and_truncates_witness:
  "FloatToBigIntBaseX (Fin (- 123 / 100)) 18 init_caches = (Returns 0, init_caches)
   \<and> ProcessFloatToDecimalAdjustment 18 NInf = Returns 0
   \<and> fst (FloatToBigIntBaseX (Fin (5404319552844595 / 18014398509481984)) 18 init_caches) =
       Returns 300000000000000000
   \<and> ProcessFloatToDecimalAdjustment 18 (Fin (5404319552844595 / 18014398509481984)) =
       Returns 300000000000000000
   \<and> fst (FloatToBigIntBaseX (Fin (3 / 2 ^ 61)) 18 init_caches) = Returns 1
   \<and> (3 / 2 ^ 61) / 1000 < \<bar>1 / 10 ^ 18 - 3 / 2 ^ 61 :: rat\<bar>
   \<and> fst (FloatToBigIntBaseX PInf 18 init_caches) = Returns 0"
  using fromFloat_clamps_and_truncates
      [of "Fin (- 123 / 100)" 18 init_caches "5404319552844595 / 18014398509481984"]
    fromFloat_clamps_and_truncates [of NInf 18 init_caches "3 / 2 ^ 61"]
    trunc_rounded_three_tenths trunc_deviating
  by (simp add: caches_ok_init f64_lt_def)

text \<open>
  The claim as stated, the truncated product of the value and the power of ten, fails:
  the \<^verbatim>\<open>float64\<close> nearest to 0.3 times \<open>10 ^ 18\<close> is 299999999999999988.89..., and
  both functions return 300000000000000000, the product rounded to 53 bits. Plus
  infinity, a non-negative input, gives zero.
\<close>

theorem fromFloat_truncated_product_counterexample:
  "f64_lit (3 / 10) = Fin (5404319552844595 / 18014398509481984)
   \<and> fst (FloatToBigIntBaseX (Fin (5404319552844595 / 18014398509481984)) 18 init_caches) =
       Returns 300000000000000000
   \<and> ProcessFloatToDecimalAdjustment 18 (Fin (5404319552844595 / 18014398509481984)) =
       Returns 300000000000000000
   \<and> trunc (5404319552844595 / 18014398509481984 * 10 ^ 18) = 299999999999999988
   \<and> fst (FloatToBigIntBaseX PInf 18 init_caches) = Returns 0"
  using FloatToBigIntBaseX_fin [of init_caches "5404319552844595 / 18014398509481984" 18]
    ProcessFloatToDecimalAdjustment_fin [of "5404319552844595 / 18014398509481984" 18]
    FloatToBigIntBaseX_PInf [of init_caches 18]
    trunc_rounded_three_tenths trunc_exact_three_tenths f64_lit_three_tenths
  by (simp add: caches_ok_init)

text \<open>
  C2 asks every float-to-integer conversion to reject NaN without panicking.
  \<open>EtherToWei\<close> does; \<open>FloatToBigIntBaseX\<close> and \<open>BigIntBaseX\<close> hand NaN to
  \<^verbatim>\<open>SetFloat64\<close>, which panics. (\<open>BigIntBaseX\<close> also dereferences a missing cache entry
  for an exponent up to 14 that was never cached.)
\<close>

theorem fromDouble_NaN_panics:
  "fst (FloatToBigIntBaseX NaN 18 init_caches) = Panics ErrNaN
   \<and> fst (BigIntBaseX impl NaN 18 init_caches) = Panics ErrNaN
   \<and> fst (BigIntBaseX impl NaN 14 init_caches) = Panics ErrNaN
   \<and> fst (BigIntBaseX impl PInf 6 init_caches) = Panics NilPointer
   \<and> EtherToWei NaN = Returns (Inl (ErrorNew ''invalid ether value: NaN or Inf''))"
  by (simp add: FloatToBigIntBaseX_NaN BigIntBaseX_NaN EtherToWei_rejects)
     (simp add: init_caches_def BigIntBaseX_def f64_lt_def)


subsection \<open>Decimal text and the BigInt wrapper\<close>

lemma of_char_digit_char:
  "0 \<le> d \<Longrightarrow> d < 10 \<Longrightarrow> (of_char (digit_char d) :: int) = 48 + d"
proof -
  assume a: "0 \<le> d" "d < 10"
  then have "0 \<le> 48 + d" "48 + d < 256"
    by linarith+
  then have "(48 + d) mod 256 = 48 + d"
    by (rule mod_pos_pos_trivial)
  then show ?thesis
    unfolding digit_char_def of_char_of .
qed

lemma digit_val_digit_char:
  "0 \<le> d \<Longrightarrow> d < 10 \<Longrightarrow> digit_val (digit_char d) = Some d"
  unfolding digit_val_def Let_def by (simp add: of_char_digit_char)

lemma digit_char_not_sign:
  assumes "0 \<le> d" "d < 10"
  shows "digit_char d \<noteq> CHR ''-'' \<and> digit_char d \<noteq> CHR ''+''"
proof -
  have e: "(of_char (digit_char d) :: int) = 48 + d"
    using assms by (rule of_char_digit_char)
  have m: "(of_char (CHR ''-'') :: int) = 45" and p: "(of_char (CHR ''+'') :: int) = 43"
    by simp_all
  have "digit_char d \<noteq> CHR ''-''"
  proof
    assume "digit_char d = CHR ''-''"
    with e m have "48 + d = 45" by simp
    with assms show False by linarith
  qed
  moreover have "digit_char d \<noteq> CHR ''+''"
  proof
    assume "digit_char d = CHR ''+''"
    with e p have "48 + d = 43" by simp
    with assms show False by linarith
  qed
  ultimately show ?thesis ..
qed


lemma scan_digits_append:
  "scan_digits b acc (xs @ ys) =
     (case scan_digits b acc xs of None \<Rightarrow> None | Some a \<Rightarrow> scan_digits b a ys)"
  by (induction xs arbitrary: acc) (auto split: option.splits)

lemma digits_nonempty: "digits n \<noteq> []"
  by (subst digits.simps) simp

lemma hd_digits_not_sign:
  "0 \<le> n \<Longrightarrow> hd (digits n) \<noteq> CHR ''-'' \<and> hd (digits n) \<noteq> CHR ''+''"
proof (induction n rule: digits.induct)
  case (1 n)
  show ?case
  proof (cases "n < 10")
    case True
    with 1 show ?thesis
      by (subst digits.simps, subst (2) digits.simps) (simp add: digit_char_not_sign)
  next
    case False
    with 1 have "hd (digits (n div 10)) \<noteq> CHR ''-'' \<and> hd (digits (n div 10)) \<noteq> CHR ''+''"
      by simp
    with False show ?thesis
      by (subst digits.simps, subst (2) digits.simps) (simp add: digits_nonempty)
  qed
qed

lemma scan_digits_digits:
  "0 \<le> n \<Longrightarrow> scan_digits 10 0 (digits n) = Some n"
proof (induction n rule: digits.induct)
  case (1 n)
  show ?case
  proof (cases "n < 10")
    case True
    with 1 show ?thesis
      by (subst digits.simps) (simp add: digit_val_digit_char)
  next
    case False
    with 1 have ih: "scan_digits 10 0 (digits (n div 10)) = Some (n div 10)"
      by simp
    have "digit_val (digit_char (n mod 10)) = Some (n mod 10)"
      by (simp add: digit_val_digit_char)
    with False ih show ?thesis
      by (subst digits.simps) (simp add: scan_digits_append)
  qed
qed

lemma Int_SetString_Int_String: "Int_SetString (Int_String i) 10 = Some i"
proof (cases "i < 0")
  case True
  then have "scan_digits 10 0 (digits (- i)) = Some (- i)"
    by (simp add: scan_digits_digits)
  with True show ?thesis
    by (simp add: Int_SetString_def Int_String_def digits_nonempty)
next
  case False
  then have s: "scan_digits 10 0 (digits i) = Some i"
    by (simp add: scan_digits_digits)
  obtain c r where cr: "digits i = c # r"
    using digits_nonempty [of i] by (cases "digits i") auto
  have "c \<noteq> CHR ''-'' \<and> c \<noteq> CHR ''+''"
    using hd_digits_not_sign [of i] False cr by simp
  with False s cr show ?thesis
    by (simp add: Int_SetString_def Int_String_def)
qed



text \<open>
  C8: decoding the JSON string \<open>""\<close> gives the nil state and no error; encoding the nil
  state gives JSON null, not the string \<open>"0"\<close>; every non-nil value is encoded as the
  JSON string of its base-10 text, which reads back to the same integer.
\<close>

theorem BigInt_json_null_state:
  "UnmarshalJSON impl fmt (Inr (JString [])) = Inr None
   \<and> MarshalJSON None = JNull
   \<and> MarshalJSON None \<noteq> JString ''0''
   \<and> MarshalJSON (Some i) = JString (Int_String i)
   \<and> Int_SetString (Int_String i) 10 = Some i
   \<and> MarshalJSON (Some 0) = JString ''0''
   \<and> MarshalJSON (Some (- 1500000000000000000)) = JString ''-1500000000000000000''"
proof -
  have "Int_String 0 = ''0''" "Int_String (- 1500000000000000000) = ''-1500000000000000000''"
    by code_simp+
  then show ?thesis
    by (simp add: UnmarshalJSON_def MarshalJSON_def Trim_def TrimRight_def
        Int_SetString_Int_String)
qed

subsection \<open>Display formatting\<close>

text \<open>
  C9: a requested number of fractional digits above 100 gives the same string as 100.
\<close>

theorem UnBaseXFloatString_clamped:
  "100 < sint d \<Longrightarrow>
     UnBaseXFloatString shortest v e d s = UnBaseXFloatString shortest v e 100 s"
  by (simp add: UnBaseXFloatString_def)

theorem UnBaseXFloatString_clamped_witness:
  "UnBaseXFloatString (\<lambda>x. []) (Some 1234567890000000000) 18 200 init_caches =
     UnBaseXFloatString (\<lambda>x. []) (Some 1234567890000000000) 18 100 init_caches
   \<and> fst (UnBaseXFloatString (\<lambda>x. []) (Some 1234567890000000000) 18 8 init_caches) =
       Returns ''1.23456789''
   \<and> fst (UnBaseXFloatString (\<lambda>x. []) None 18 8 init_caches) = Returns ''0''"
proof -
  have "(100 :: int) < sint (200 :: 64 word)"
    by simp
  then have "UnBaseXFloatString (\<lambda>x. []) (Some 1234567890000000000) 18 200 init_caches =
     UnBaseXFloatString (\<lambda>x. []) (Some 1234567890000000000) 18 100 init_caches"
    by (rule UnBaseXFloatString_clamped)
  moreover have "fst (UnBaseXFloatString (\<lambda>x. []) (Some 1234567890000000000) 18 8 init_caches) =
       Returns ''1.23456789''"
    by code_simp
  moreover have "fst (UnBaseXFloatString (\<lambda>x. []) None 18 8 init_caches) = Returns ''0''"
    by (simp add: UnBaseXFloatString_def)
  ultimately show ?thesis
    by blast
qed

text \<open>
  C10: for a non-negative big integer \<open>v\<close> and a scale exponent \<open>y\<close> (a non-negative
  number of decimal places), \<open>UnBaseX\<close> returns the floor of \<open>v / 10 ^ y\<close>, discarding the
  fractional remainder: 1500000000000000000 at exponent 18 gives 1. A nil or negative
  input gives zero.
\<close>

theorem UnBaseX_floor:
  "(caches_ok s \<and> 0 \<le> v \<and> 0 \<le> sint y \<longrightarrow>
      fst (UnBaseX (Some v) y s) = Returns \<lfloor>(of_int v :: rat) / 10 ^ nat (sint y)\<rfloor>)
   \<and> fst (UnBaseX (Some 1500000000000000000) 18 init_caches) = Returns 1
   \<and> fst (UnBaseX None y s) = Returns 0
   \<and> (v < 0 \<longrightarrow> fst (UnBaseX (Some v) y s) = Returns 0)"
proof (intro conjI impI)
  assume a: "caches_ok s \<and> 0 \<le> v \<and> 0 \<le> sint y"
  have k: "fst (cached_pow10 y s) = Exp10 y"
    using a by (simp add: cached_pow10_value)
  have e: "Exp10 y = 10 ^ nat (sint y)"
    using a by (cases "sint y = 0") (simp_all add: Exp10_def)
  have "\<lfloor>(of_int v :: rat) / 10 ^ nat (sint y)\<rfloor> = v div 10 ^ nat (sint y)"
    using floor_divide_of_int_eq [of v "10 ^ nat (sint y)", where ?'a = rat] by simp
  then show "fst (UnBaseX (Some v) y s) = Returns \<lfloor>(of_int v :: rat) / 10 ^ nat (sint y)\<rfloor>"
    using a k e by (cases "cached_pow10 y s") (simp add: UnBaseX_def Int_Div_def)
next
  show "fst (UnBaseX (Some 1500000000000000000) 18 init_caches) = Returns 1"
    by (simp add: UnBaseX_def cached_pow10_def init_caches_def Exp10_def Int_Div_def)
qed (simp_all add: UnBaseX_def)

theorem UnBaseX_floor_witness:
  "fst (UnBaseX (Some 2999) 3 init_caches) = Returns 2
   \<and> fst (UnBaseX (Some (- 5)) 3 init_caches) = Returns 0"
proof -
  have "\<lfloor>(2999 :: rat) / 1000\<rfloor> = 2"
    by code_simp
  then show ?thesis
    using UnBaseX_floor [of init_caches 2999 3] UnBaseX_floor [of init_caches "- 5" 3]
    by (simp add: caches_ok_init)
qed

end
